theory Spec2Isabelle
  imports Main "HOL-Library.Multiset"
begin

section \<open>Persisted schema\<close>

text \<open>
  The two tables \<open>users(id, username, email, password, role, created_at)\<close> and
  \<open>tasks(id, title, description, status, user_id, created_at, updated_at)\<close>.
  The field prefixes follow the aliases \<open>u\<close> and \<open>t\<close> of the SQL in taskRoutes.
  A table is the list of its rows in insertion order. Timestamps are natural numbers.
  A \<open>NULL\<close> description is \<open>None\<close>. The comparisons of the queries are
  equality of the values; the path parameter \<open>:id\<close> is a number. A statement that
  the database refuses is outside the model, but for the two places named below.
\<close>

record user =
  u_id :: nat
  u_username :: string
  u_email :: string
  u_password :: string
  u_role :: string
  u_created_at :: nat

record task =
  t_id :: nat
  t_title :: string
  t_description :: "string option"
  t_status :: string
  t_user_id :: nat
  t_created_at :: nat
  t_updated_at :: nat

text \<open>
  The database: both tables and the auto-increment counter of each, from which
  \<open>result.insertId\<close> is taken.
\<close>

record db =
  users :: "user list"
  tasks :: "task list"
  users_auto_increment :: nat
  tasks_auto_increment :: nat

section \<open>Requests and responses\<close>

text \<open>
  \<open>req.user\<close>, the decoded payload that the \<open>auth\<close> middleware attaches to the request.
  The middleware itself is outside the routes; the routes read only these fields.
\<close>

record claims =
  claim_id :: nat
  claim_username :: string
  claim_role :: string

text \<open>
  A JSON value as the auth routes see the password (\<open>express.json()\<close> parses any
  JSON): a string, or a value that is not a string (a number, a boolean, \<open>null\<close>,
  an array, an object). The validators read a value through their \<open>toString\<close>,
  so a value that is not a string is kept as the text that \<open>toString\<close> gives for it
  (\<open>123456\<close> as \<open>NonStr ''123456''\<close>, \<open>null\<close> as \<open>NonStr []\<close>); bcryptjs
  tests \<open>typeof\<close> and refuses it.
\<close>

datatype json_value = Str string | NonStr string

text \<open>
  \<open>req.body\<close> of the auth routes and of the task routes. A field that the JSON body
  does not have is \<open>undefined\<close> in the handler: \<open>None\<close> here. The password is any
  JSON value; the other fields, when present, are JSON strings.
\<close>

record auth_body =
  username :: "string option"
  email :: "string option"
  password :: "json_value option"

record task_body =
  title :: "string option"
  description :: "string option"
  status :: "string option"

text \<open>
  \<open>jwt.sign(payload, secret, { expiresIn })\<close>: the token is its payload and its
  lifetime. The signature belongs to the library.
\<close>

datatype token = Jwt claims string

record public_user =
  pu_id :: nat
  pu_username :: string
  pu_email :: string
  pu_role :: string

text \<open>
  The JSON documents that the routes send: \<open>{message}\<close>, \<open>{errors}\<close> (each error as
  its parameter and its message), the rows of a task query joined with the owner's
  username, \<open>{message, task}\<close> and \<open>{message, token, user}\<close>. A response is the HTTP
  status with the document; \<open>res.json\<close> without \<open>res.status\<close> answers 200.
\<close>

datatype json =
  Message string
| Errors "(string \<times> string) list"
| Rows "(task \<times> string) list"
| Row "task \<times> string"
| MessageTask string "task option"
| MessageTokenUser string token public_user

type_synonym response = "nat \<times> json"

section \<open>Validation chains (express-validator)\<close>

text \<open>
  A validator reads the field through \<open>toString\<close>, which turns \<open>undefined\<close> into
  the empty string. \<open>optional()\<close> skips the chain when the field is \<open>undefined\<close>.
  A failing chain adds one entry to \<open>errors\<close>, with the message of \<open>withMessage\<close> or
  the default \<open>Invalid value\<close>.
\<close>

definition toString :: "string option \<Rightarrow> string" where
  "toString v = (case v of None \<Rightarrow> [] | Some s \<Rightarrow> s)"

text \<open>The field as the validators read it: the string itself, or the text of the value.\<close>

definition text_of :: "json_value option \<Rightarrow> string option" where
  "text_of v = (case v of None \<Rightarrow> None | Some (Str s) \<Rightarrow> Some s | Some (NonStr s) \<Rightarrow> Some s)"

definition notEmpty :: "string option \<Rightarrow> bool" where
  "notEmpty v = (toString v \<noteq> [])"

definition isLength_min :: "nat \<Rightarrow> string option \<Rightarrow> bool" where
  "isLength_min n v = (n \<le> length (toString v))"

definition isIn :: "string list \<Rightarrow> string option \<Rightarrow> bool" where
  "isIn vs v = (toString v \<in> set vs)"

definition optional :: "(string option \<Rightarrow> bool) \<Rightarrow> string option \<Rightarrow> bool" where
  "optional chain v = (case v of None \<Rightarrow> True | Some s \<Rightarrow> chain (Some s))"

definition chain_errors :: "bool \<Rightarrow> string \<Rightarrow> string \<Rightarrow> (string \<times> string) list" where
  "chain_errors ok param msg = (if ok then [] else [(param, msg)])"

definition statuses :: "string list" where
  "statuses = [''pending'', ''in-progress'', ''completed'']"

section \<open>authRoutes\<close>

text \<open>
  \<open>isEmail\<close> (validator.js), \<open>bcrypt.hash\<close> and \<open>bcrypt.compare\<close> are library
  functions: parameters of the routes. The salt of \<open>bcrypt.genSalt\<close> is random and
  the time of the insert is the database's: both are arguments.
\<close>

definition register_errors :: "(string \<Rightarrow> bool) \<Rightarrow> auth_body \<Rightarrow> (string \<times> string) list" where
  "register_errors isEmail body =
     chain_errors (notEmpty (username body)) ''username'' ''Username is required'' @
     chain_errors (isEmail (toString (email body))) ''email'' ''Valid email is required'' @
     chain_errors (isLength_min 6 (text_of (password body))) ''password''
       ''Password must be at least 6 characters''"

text \<open>
  \<open>router.post('/register')\<close>. A parameter of a query that is \<open>undefined\<close> is sent
  as \<open>NULL\<close>, which equals no column value. The insert names username, email and
  password; the role of the new row is the column's default, \<open>user\<close>. After a
  passed validation the fields are present; on an \<open>undefined\<close> one \<open>bcrypt.hash\<close>
  or the insert throws and the \<open>catch\<close> answers 500. \<open>bcrypt.hash\<close> also throws
  on a password that is not a string, before anything is inserted.
\<close>

definition post_register ::
  "(string \<Rightarrow> bool) \<Rightarrow> (string \<Rightarrow> string \<Rightarrow> string) \<Rightarrow> auth_body \<Rightarrow> string \<Rightarrow> nat \<Rightarrow> db
     \<Rightarrow> db \<times> response" where
  "post_register isEmail bcrypt_hash body salt now d =
     (let errors = register_errors isEmail body in
      if errors \<noteq> [] then (d, (400, Errors errors))
      else
        let existing = filter (\<lambda>u. Some (u_email u) = email body \<or>
                                    Some (u_username u) = username body) (users d) in
        if length existing > 0 then (d, (400, Message ''User already exists''))
        else case (username body, email body, password body) of
          (Some username', Some email', Some (Str password')) \<Rightarrow>
            (let hashedPassword = bcrypt_hash password' salt;
                 insertId = users_auto_increment d;
                 d' = d\<lparr>users := users d @
                          [\<lparr>u_id = insertId, u_username = username', u_email = email',
                            u_password = hashedPassword, u_role = ''user'',
                            u_created_at = now\<rparr>],
                        users_auto_increment := insertId + 1\<rparr>;
                 token = Jwt \<lparr>claim_id = insertId, claim_username = username',
                              claim_role = ''user''\<rparr> ''24h''
             in (d', (201, MessageTokenUser ''User registered successfully'' token
                        \<lparr>pu_id = insertId, pu_username = username', pu_email = email',
                          pu_role = ''user''\<rparr>)))
        | _ \<Rightarrow> (d, (500, Message ''Server error'')))"

definition login_errors :: "(string \<Rightarrow> bool) \<Rightarrow> auth_body \<Rightarrow> (string \<times> string) list" where
  "login_errors isEmail body =
     chain_errors (isEmail (toString (email body))) ''email'' ''Valid email is required'' @
     chain_errors (notEmpty (text_of (password body))) ''password'' ''Password is required''"

text \<open>
  \<open>router.post('/login')\<close>. It reads the database and does not write it.
  \<open>bcrypt.compare\<close> throws on a password that is \<open>undefined\<close> or not a string (a
  number passes \<open>notEmpty\<close>); the \<open>catch\<close> answers 500. The call is reached only
  when a user with the email is stored.
\<close>

definition post_login ::
  "(string \<Rightarrow> bool) \<Rightarrow> (string \<Rightarrow> string \<Rightarrow> bool) \<Rightarrow> auth_body \<Rightarrow> db \<Rightarrow> response" where
  "post_login isEmail bcrypt_compare body d =
     (let errors = login_errors isEmail body in
      if errors \<noteq> [] then (400, Errors errors)
      else case filter (\<lambda>u. Some (u_email u) = email body) (users d) of
        [] \<Rightarrow> (401, Message ''Invalid credentials'')
      | user # _ \<Rightarrow>
          (case password body of
             Some (Str password') \<Rightarrow>
               if \<not> bcrypt_compare password' (u_password user)
               then (401, Message ''Invalid credentials'')
               else
                 let token = Jwt \<lparr>claim_id = u_id user, claim_username = u_username user,
                                  claim_role = u_role user\<rparr> ''24h''
                 in (200, MessageTokenUser ''Login successful'' token
                       \<lparr>pu_id = u_id user, pu_username = u_username user,
                         pu_email = u_email user, pu_role = u_role user\<rparr>)
           | _ \<Rightarrow> (500, Message ''Server error'')))"

section \<open>taskRoutes\<close>

text \<open>
  \<open>SELECT t.*, u.username FROM tasks t JOIN users u ON t.user_id = u.id\<close>: one row
  for every pair of a task and a user with that id.
\<close>

definition tasks_join_users :: "db \<Rightarrow> (task \<times> string) list" where
  "tasks_join_users d =
     concat (map (\<lambda>t. map (\<lambda>u. (t, u_username u))
                         (filter (\<lambda>u. t_user_id t = u_id u) (users d)))
                 (tasks d))"

text \<open>
  \<open>ORDER BY t.created_at DESC\<close>. Rows of equal creation time come in an order that
  SQL leaves open; here the later inserted first.
\<close>

definition order_by_created_at_desc :: "(task \<times> string) list \<Rightarrow> (task \<times> string) list" where
  "order_by_created_at_desc rows = rev (sort_key (\<lambda>r. t_created_at (fst r)) rows)"

text \<open>\<open>router.get('/')\<close>\<close>

definition get_tasks :: "claims \<Rightarrow> db \<Rightarrow> response" where
  "get_tasks req_user d =
     (let rows = tasks_join_users d;
          rows = (if claim_role req_user \<noteq> ''admin''
                  then filter (\<lambda>r. t_user_id (fst r) = claim_id req_user) rows
                  else rows)
      in (200, Rows (order_by_created_at_desc rows)))"

text \<open>\<open>router.get('/:id')\<close>\<close>

definition get_task :: "claims \<Rightarrow> nat \<Rightarrow> db \<Rightarrow> response" where
  "get_task req_user id' d =
     (case filter (\<lambda>r. t_id (fst r) = id') (tasks_join_users d) of
        [] \<Rightarrow> (404, Message ''Task not found'')
      | task # _ \<Rightarrow>
          if claim_role req_user \<noteq> ''admin'' \<and> t_user_id (fst task) \<noteq> claim_id req_user
          then (403, Message ''Access denied'')
          else (200, Row task))"

definition create_errors :: "task_body \<Rightarrow> (string \<times> string) list" where
  "create_errors body =
     chain_errors (notEmpty (title body)) ''title'' ''Title is required'' @
     chain_errors (optional (isIn statuses) (status body)) ''status'' ''Invalid value''"

text \<open>
  \<open>tasks[0]\<close> of a query result: \<open>undefined\<close> when there is no row.
\<close>

definition first_row :: "'a list \<Rightarrow> 'a option" where
  "first_row rows = (case rows of [] \<Rightarrow> None | r # _ \<Rightarrow> Some r)"

text \<open>
  \<open>router.post('/')\<close>. The insert names title, description, status and user_id; the
  two timestamps are the database's, the time of the insert. After a passed
  validation the title is present; an \<open>undefined\<close> title would be a \<open>NULL\<close> that the
  insert rejects, answered by the \<open>catch\<close>.
\<close>

definition post_task :: "claims \<Rightarrow> task_body \<Rightarrow> nat \<Rightarrow> db \<Rightarrow> db \<times> response" where
  "post_task req_user body now d =
     (let errors = create_errors body in
      if errors \<noteq> [] then (d, (400, Errors errors))
      else case title body of
        Some title' \<Rightarrow>
          (let status' = (case status body of None \<Rightarrow> ''pending'' | Some s \<Rightarrow> s);
               insertId = tasks_auto_increment d;
               d' = d\<lparr>tasks := tasks d @
                        [\<lparr>t_id = insertId, t_title = title', t_description = description body,
                          t_status = status', t_user_id = claim_id req_user,
                          t_created_at = now, t_updated_at = now\<rparr>],
                      tasks_auto_increment := insertId + 1\<rparr>;
               newTask = filter (\<lambda>t. t_id t = insertId) (tasks d')
           in (d', (201, MessageTask ''Task created successfully'' (first_row newTask))))
      | None \<Rightarrow> (d, (500, Message ''Server error'')))"

definition update_errors :: "task_body \<Rightarrow> (string \<times> string) list" where
  "update_errors body =
     chain_errors (optional notEmpty (title body)) ''title'' ''Invalid value'' @
     chain_errors (optional (isIn statuses) (status body)) ''status'' ''Invalid value''"

text \<open>
  The pairs of \<open>updates\<close> and \<open>values\<close> that the handler collects: one assignment of
  the \<open>SET\<close> clause each.
\<close>

datatype assignment = SetTitle string | SetDescription string | SetStatus string

fun assign :: "assignment \<Rightarrow> task \<Rightarrow> task" where
  "assign (SetTitle v) t = t\<lparr>t_title := v\<rparr>"
| "assign (SetDescription v) t = t\<lparr>t_description := Some v\<rparr>"
| "assign (SetStatus v) t = t\<lparr>t_status := v\<rparr>"

text \<open>
  \<open>if (title)\<close>, \<open>if (description !== undefined)\<close>, \<open>if (status)\<close>: an
  \<open>undefined\<close> field and an empty string are falsy; an empty description is not
  \<open>undefined\<close> and is assigned.
\<close>

definition collect_updates :: "task_body \<Rightarrow> assignment list" where
  "collect_updates body =
     (case title body of None \<Rightarrow> [] | Some v \<Rightarrow> if v \<noteq> [] then [SetTitle v] else []) @
     (case description body of None \<Rightarrow> [] | Some v \<Rightarrow> [SetDescription v]) @
     (case status body of None \<Rightarrow> [] | Some v \<Rightarrow> if v \<noteq> [] then [SetStatus v] else [])"

text \<open>
  \<open>UPDATE tasks SET ... WHERE id = ?\<close>: the assignments, in their order, on every
  row of that id; \<open>updated_at\<close> becomes the time of the statement.
\<close>

definition update_rows :: "assignment list \<Rightarrow> nat \<Rightarrow> nat \<Rightarrow> task list \<Rightarrow> task list" where
  "update_rows updates id' now rows =
     map (\<lambda>t. if t_id t = id' then (fold assign updates t)\<lparr>t_updated_at := now\<rparr> else t) rows"

text \<open>\<open>router.put('/:id')\<close>\<close>

definition put_task :: "claims \<Rightarrow> nat \<Rightarrow> task_body \<Rightarrow> nat \<Rightarrow> db \<Rightarrow> db \<times> response" where
  "put_task req_user id' body now d =
     (let errors = update_errors body in
      if errors \<noteq> [] then (d, (400, Errors errors))
      else case filter (\<lambda>t. t_id t = id') (tasks d) of
        [] \<Rightarrow> (d, (404, Message ''Task not found''))
      | task # _ \<Rightarrow>
          if claim_role req_user \<noteq> ''admin'' \<and> t_user_id task \<noteq> claim_id req_user
          then (d, (403, Message ''Access denied''))
          else
            let updates = collect_updates body in
            if length updates = 0 then (d, (400, Message ''No fields to update''))
            else
              let d' = d\<lparr>tasks := update_rows updates id' now (tasks d)\<rparr>;
                  updatedTask = filter (\<lambda>t. t_id t = id') (tasks d')
              in (d', (200, MessageTask ''Task updated successfully'' (first_row updatedTask))))"

text \<open>\<open>router.delete('/:id')\<close>\<close>

definition delete_task :: "claims \<Rightarrow> nat \<Rightarrow> db \<Rightarrow> db \<times> response" where
  "delete_task req_user id' d =
     (case filter (\<lambda>t. t_id t = id') (tasks d) of
        [] \<Rightarrow> (d, (404, Message ''Task not found''))
      | task # _ \<Rightarrow>
          if claim_role req_user \<noteq> ''admin'' \<and> t_user_id task \<noteq> claim_id req_user
          then (d, (403, Message ''Access denied''))
          else (d\<lparr>tasks := filter (\<lambda>t. t_id t \<noteq> id') (tasks d)\<rparr>,
                (200, Message ''Task deleted successfully'')))"

section \<open>Data-model invariant\<close>

text \<open>
  The invariants of the data model: user ids are unique and below the counter that
  generates them, and the owner of every task is a stored user.
\<close>

definition consistent :: "db \<Rightarrow> bool" where
  "consistent d \<longleftrightarrow>
     distinct (map u_id (users d)) \<and>
     (\<forall>u \<in> set (users d). u_id u < users_auto_increment d) \<and>
     (\<forall>t \<in> set (tasks d). t_user_id t \<in> u_id ` set (users d))"

text \<open>The policy that the three handlers test: an administrator, or the owner.\<close>

definition permitted :: "claims \<Rightarrow> task \<Rightarrow> bool" where
  "permitted req_user t \<longleftrightarrow> claim_role req_user = ''admin'' \<or> t_user_id t = claim_id req_user"

section \<open>Sample data\<close>

text \<open>
  Stand-ins for the library functions and a small database (two users, an
  administrator, one task of each user), on which the theorems below are run.
\<close>

definition sample_isEmail :: "string \<Rightarrow> bool" where
  "sample_isEmail s = (CHR ''@'' \<in> set s)"

definition sample_hash :: "string \<Rightarrow> string \<Rightarrow> string" where
  "sample_hash plaintext salt = salt @ plaintext"

definition sample_compare :: "string \<Rightarrow> string \<Rightarrow> bool" where
  "sample_compare plaintext hash = (drop 2 hash = plaintext)"

definition alice :: user where
  "alice = \<lparr>u_id = 1, u_username = ''alice'', u_email = ''alice@x.com'',
             u_password = ''s1secret1'', u_role = ''user'', u_created_at = 10\<rparr>"

definition bob :: user where
  "bob = \<lparr>u_id = 2, u_username = ''bob'', u_email = ''bob@x.com'',
           u_password = ''s2hunter22'', u_role = ''user'', u_created_at = 11\<rparr>"

definition carol :: user where
  "carol = \<lparr>u_id = 3, u_username = ''carol'', u_email = ''carol@x.com'',
             u_password = ''s3topsecret'', u_role = ''admin'', u_created_at = 12\<rparr>"

definition buy_milk :: task where
  "buy_milk = \<lparr>t_id = 1, t_title = ''buy milk'', t_description = None,
                t_status = ''pending'', t_user_id = 1, t_created_at = 20, t_updated_at = 20\<rparr>"

definition walk_dog :: task where
  "walk_dog = \<lparr>t_id = 2, t_title = ''walk dog'', t_description = Some ''twice'',
                t_status = ''in-progress'', t_user_id = 2, t_created_at = 30,
                t_updated_at = 31\<rparr>"

definition sample_db :: db where
  "sample_db = \<lparr>users = [alice, bob, carol], tasks = [buy_milk, walk_dog],
                 users_auto_increment = 4, tasks_auto_increment = 3\<rparr>"

definition claims_of :: "user \<Rightarrow> claims" where
  "claims_of u = \<lparr>claim_id = u_id u, claim_username = u_username u, claim_role = u_role u\<rparr>"

definition no_fields :: task_body where
  "no_fields = \<lparr>title = None, description = None, status = None\<rparr>"

lemmas sample_defs = sample_db_def alice_def bob_def carol_def buy_milk_def walk_dog_def
  claims_of_def no_fields_def

section \<open>Validation lemmas\<close>

lemma login_errors_empty_iff:
  "login_errors isEmail body = [] \<longleftrightarrow>
     isEmail (toString (email body)) \<and> toString (text_of (password body)) \<noteq> []"
  by (simp add: login_errors_def chain_errors_def notEmpty_def)

lemma update_errors_empty_iff:
  "update_errors body = [] \<longleftrightarrow>
     title body \<noteq> Some [] \<and> (\<forall>s. status body = Some s \<longrightarrow> s \<in> set statuses)"
  by (auto simp: update_errors_def chain_errors_def optional_def notEmpty_def isIn_def
      toString_def split: option.splits)

lemma create_errors_empty_iff:
  "create_errors body = [] \<longleftrightarrow>
     toString (title body) \<noteq> [] \<and> (\<forall>s. status body = Some s \<longrightarrow> s \<in> set statuses)"
  by (auto simp: create_errors_def chain_errors_def optional_def notEmpty_def isIn_def
      toString_def split: option.splits)

section \<open>Query lemmas\<close>

lemma first_row_Cons: "first_row rows = Some r \<Longrightarrow> \<exists>rest. rows = r # rest"
  by (auto simp: first_row_def split: list.splits)

lemma first_row_in_set: "first_row (filter P ts) = Some t \<Longrightarrow> t \<in> set ts \<and> P t"
proof -
  assume "first_row (filter P ts) = Some t"
  then obtain rest where "filter P ts = t # rest" by (auto dest: first_row_Cons)
  then have "t \<in> set (filter P ts)" by simp
  then show ?thesis by simp
qed

lemma filter_id_empty: "id' \<notin> t_id ` set ts \<Longrightarrow> filter (\<lambda>t. t_id t = id') ts = []"
  by (induction ts) auto

text \<open>With unique ids, the join condition selects exactly one user for a stored owner.\<close>

lemma unique_owner:
  "distinct (map u_id us) \<Longrightarrow> k \<in> u_id ` set us \<Longrightarrow> \<exists>u. filter (\<lambda>u. k = u_id u) us = [u]"
proof (induction us)
  case Nil
  then show ?case by simp
next
  case (Cons a us)
  show ?case
  proof (cases "k = u_id a")
    case True
    with Cons.prems have "k \<notin> u_id ` set us" by auto
    then have "filter (\<lambda>u. k = u_id u) us = []"
      by (auto simp: filter_empty_conv)
    with True show ?thesis by simp
  next
    case False
    with Cons show ?thesis by auto
  qed
qed

lemma join_single:
  "\<forall>t \<in> set ts. \<exists>u. filter (R t) us = [u] \<Longrightarrow>
     concat (map (\<lambda>t. map (\<lambda>u. (t, f u)) (filter (R t) us)) ts) =
     map (\<lambda>t. (t, f (hd (filter (R t) us)))) ts"
  by (induction ts) auto

text \<open>In a consistent database the join has one row for every task, in the tasks' order.\<close>

lemma consistent_join:
  assumes "consistent d"
  shows "tasks_join_users d =
           map (\<lambda>t. (t, u_username (hd (filter (\<lambda>u. t_user_id t = u_id u) (users d))))) (tasks d)"
proof -
  have "\<forall>t \<in> set (tasks d). \<exists>u. filter (\<lambda>u. t_user_id t = u_id u) (users d) = [u]"
    using assms by (auto simp: consistent_def intro!: unique_owner)
  then show ?thesis
    unfolding tasks_join_users_def by (rule join_single)
qed

lemma filter_fst_map:
  "filter (\<lambda>r. P (fst r)) (map (\<lambda>t. (t, g t)) ts) = map (\<lambda>t. (t, g t)) (filter P ts)"
  by (induction ts) auto

lemma mset_order_by: "mset (map fst (order_by_created_at_desc rows)) = mset (map fst rows)"
  by (simp add: order_by_created_at_desc_def)

lemma sorted_order_by:
  "sorted_wrt (\<lambda>a b. t_created_at b \<le> t_created_at a) (map fst (order_by_created_at_desc rows))"
proof -
  have "sorted (map (\<lambda>r. t_created_at (fst r)) (sort_key (\<lambda>r. t_created_at (fst r)) rows))"
    by (rule sorted_sort_key)
  then show ?thesis
    by (simp add: order_by_created_at_desc_def sorted_wrt_rev sorted_map sorted_wrt_map
        rev_map [symmetric])
qed

section \<open>The handlers on a stored task\<close>

lemma put_task_invalid:
  "update_errors body \<noteq> [] \<Longrightarrow>
     put_task req_user id' body now d = (d, (400, Errors (update_errors body)))"
  by (simp add: put_task_def)

lemma put_task_missing:
  "update_errors body = [] \<Longrightarrow> filter (\<lambda>t. t_id t = id') (tasks d) = [] \<Longrightarrow>
     put_task req_user id' body now d = (d, (404, Message ''Task not found''))"
  by (simp add: put_task_def)

lemma put_task_found:
  assumes "update_errors body = []"
    and "first_row (filter (\<lambda>t. t_id t = id') (tasks d)) = Some t"
  shows "put_task req_user id' body now d =
           (if permitted req_user t
            then if collect_updates body = [] then (d, (400, Message ''No fields to update''))
                 else (d\<lparr>tasks := update_rows (collect_updates body) id' now (tasks d)\<rparr>,
                       (200, MessageTask ''Task updated successfully''
                          (first_row (filter (\<lambda>t. t_id t = id')
                             (update_rows (collect_updates body) id' now (tasks d))))))
            else (d, (403, Message ''Access denied'')))"
proof -
  from assms(2) obtain rest where "filter (\<lambda>t. t_id t = id') (tasks d) = t # rest"
    by (auto dest: first_row_Cons)
  with assms(1) show ?thesis
    by (simp add: put_task_def permitted_def Let_def)
qed

lemma put_task_200:
  assumes "put_task req_user id' body now d = (d', (200, j))"
  shows "d' = d\<lparr>tasks := update_rows (collect_updates body) id' now (tasks d)\<rparr>"
  using assms
  by (auto simp: put_task_def Let_def split: if_splits list.splits)

lemma delete_task_found:
  assumes "first_row (filter (\<lambda>t. t_id t = id') (tasks d)) = Some t"
  shows "delete_task req_user id' d =
           (if permitted req_user t
            then (d\<lparr>tasks := filter (\<lambda>t. t_id t \<noteq> id') (tasks d)\<rparr>,
                  (200, Message ''Task deleted successfully''))
            else (d, (403, Message ''Access denied'')))"
proof -
  from assms obtain rest where "filter (\<lambda>t. t_id t = id') (tasks d) = t # rest"
    by (auto dest: first_row_Cons)
  then show ?thesis
    by (simp add: delete_task_def permitted_def)
qed

lemma get_task_found:
  assumes "consistent d" and "first_row (filter (\<lambda>t. t_id t = id') (tasks d)) = Some t"
  shows "\<exists>u \<in> set (users d). u_id u = t_user_id t \<and>
           get_task req_user id' d =
             (if permitted req_user t then (200, Row (t, u_username u))
              else (403, Message ''Access denied''))"
proof -
  let ?own = "\<lambda>t. filter (\<lambda>u. t_user_id t = u_id u) (users d)"
  let ?g = "\<lambda>t. u_username (hd (?own t))"
  from assms(2) obtain rest where rest: "filter (\<lambda>t. t_id t = id') (tasks d) = t # rest"
    by (auto dest: first_row_Cons)
  from assms(2) have "t \<in> set (tasks d)" by (auto dest: first_row_in_set)
  with assms(1) have "t_user_id t \<in> u_id ` set (users d)" and "distinct (map u_id (users d))"
    by (simp_all add: consistent_def)
  then obtain u where u: "?own t = [u]"
    using unique_owner by blast
  then have "u \<in> set (?own t)" by simp
  then have mem: "u \<in> set (users d)" and uid: "u_id u = t_user_id t" by simp_all
  have "filter (\<lambda>r. t_id (fst r) = id') (tasks_join_users d) =
          map (\<lambda>t. (t, ?g t)) (filter (\<lambda>t. t_id t = id') (tasks d))"
    unfolding consistent_join [OF assms(1)] by (rule filter_fst_map)
  also have "\<dots> = (t, u_username u) # map (\<lambda>t. (t, ?g t)) rest"
    by (simp add: rest u)
  finally have "get_task req_user id' d =
             (if permitted req_user t then (200, Row (t, u_username u))
              else (403, Message ''Access denied''))"
    by (simp add: get_task_def permitted_def)
  with mem uid show ?thesis by blast
qed

lemma collect_updates_no_fields:
  "title body = None \<Longrightarrow> description body = None \<Longrightarrow> status body = None \<Longrightarrow>
     collect_updates body = []"
  by (simp add: collect_updates_def)

text \<open>The assignments touch no column but the ones that the body supplies.\<close>

lemma fold_assign_frame:
  "t_id (fold assign (collect_updates body) t) = t_id t \<and>
   t_user_id (fold assign (collect_updates body) t) = t_user_id t \<and>
   t_created_at (fold assign (collect_updates body) t) = t_created_at t \<and>
   (title body = None \<longrightarrow> t_title (fold assign (collect_updates body) t) = t_title t) \<and>
   (description body = None \<longrightarrow>
      t_description (fold assign (collect_updates body) t) = t_description t) \<and>
   (status body = None \<longrightarrow> t_status (fold assign (collect_updates body) t) = t_status t)"
  by (cases "title body"; cases "description body"; cases "status body")
     (simp_all add: collect_updates_def)

section \<open>The invariant is kept\<close>

lemma consistent_sample_db: "consistent sample_db"
  by (simp add: consistent_def sample_db_def alice_def bob_def carol_def buy_milk_def walk_dog_def)

lemma post_register_consistent:
  "consistent d \<Longrightarrow> consistent (fst (post_register isEmail bcrypt_hash body salt now d))"
  by (auto simp: post_register_def consistent_def Let_def less_Suc_eq
      split: option.splits json_value.splits)

lemma post_task_consistent:
  "consistent d \<Longrightarrow> claim_id req_user \<in> u_id ` set (users d) \<Longrightarrow>
     consistent (fst (post_task req_user body now d))"
  by (auto simp: post_task_def consistent_def Let_def split: option.splits)

lemma put_task_consistent:
  "consistent d \<Longrightarrow> consistent (fst (put_task req_user id' body now d))"
  by (auto simp: put_task_def consistent_def Let_def update_rows_def fold_assign_frame
      split: list.splits)

lemma delete_task_consistent:
  "consistent d \<Longrightarrow> consistent (fst (delete_task req_user id' d))"
  by (auto simp: delete_task_def consistent_def split: list.splits)

section \<open>Access control on a single task\<close>

text \<open>
  Claim C1, as amended. For every \<open>req.user\<close> and every stored task: delete lets an
  administrator and the owner through and answers everybody else 403
  \<open>Access denied\<close>, leaving the database as it was; update does the same once its
  body has passed the validation chains; read-single does the same in a consistent
  database, where its join finds the owner. The request of a permitted caller then
  runs: the row is returned, the rows of that id are deleted, or the update goes on
  to its assignments.
\<close>

theorem gate_admin_or_owner:
  assumes "first_row (filter (\<lambda>t. t_id t = id') (tasks d)) = Some t"
  shows "(consistent d \<longrightarrow>
            (\<exists>u \<in> set (users d). u_id u = t_user_id t \<and>
               get_task req_user id' d =
                 (if permitted req_user t then (200, Row (t, u_username u))
                  else (403, Message ''Access denied'')))) \<and>
         delete_task req_user id' d =
           (if permitted req_user t
            then (d\<lparr>tasks := filter (\<lambda>t. t_id t \<noteq> id') (tasks d)\<rparr>,
                  (200, Message ''Task deleted successfully''))
            else (d, (403, Message ''Access denied''))) \<and>
         (update_errors body = [] \<longrightarrow>
            put_task req_user id' body now d =
              (if permitted req_user t
               then if collect_updates body = [] then (d, (400, Message ''No fields to update''))
                    else (d\<lparr>tasks := update_rows (collect_updates body) id' now (tasks d)\<rparr>,
                          (200, MessageTask ''Task updated successfully''
                             (first_row (filter (\<lambda>t. t_id t = id')
                                (update_rows (collect_updates body) id' now (tasks d))))))
               else (d, (403, Message ''Access denied''))))"
  using get_task_found [OF _ assms] delete_task_found [OF assms] put_task_found [OF _ assms]
  by blast

text \<open>Bob, who is no administrator, on the task of Alice: denied on all three routes.\<close>

theorem gate_admin_or_owner_witness:
  "consistent sample_db \<and>
   first_row (filter (\<lambda>t. t_id t = 1) (tasks sample_db)) = Some buy_milk \<and>
   \<not> permitted (claims_of bob) buy_milk \<and>
   get_task (claims_of bob) 1 sample_db = (403, Message ''Access denied'') \<and>
   delete_task (claims_of bob) 1 sample_db = (sample_db, (403, Message ''Access denied'')) \<and>
   put_task (claims_of bob) 1 (no_fields\<lparr>status := Some ''completed''\<rparr>) 50 sample_db =
     (sample_db, (403, Message ''Access denied''))"
proof -
  have c: "consistent sample_db" by (rule consistent_sample_db)
  have f: "first_row (filter (\<lambda>t. t_id t = 1) (tasks sample_db)) = Some buy_milk"
    by (simp add: first_row_def sample_defs)
  have p: "\<not> permitted (claims_of bob) buy_milk"
    by (simp add: permitted_def sample_defs)
  have v: "update_errors (no_fields\<lparr>status := Some ''completed''\<rparr>) = []"
    by (simp add: update_errors_empty_iff statuses_def no_fields_def)
  from gate_admin_or_owner [OF f, of "claims_of bob" "no_fields\<lparr>status := Some ''completed''\<rparr>" 50]
    c f p v show ?thesis by simp
qed

text \<open>
  The claim as first stated fails for update: Bob's update of Alice's task with a
  status outside the enumeration is answered 400 by the validation, not 403.
\<close>

theorem gate_after_validation_counterexample:
  "first_row (filter (\<lambda>t. t_id t = 1) (tasks sample_db)) = Some buy_milk \<and>
   \<not> permitted (claims_of bob) buy_milk \<and>
   put_task (claims_of bob) 1 (no_fields\<lparr>status := Some ''done''\<rparr>) 50 sample_db =
     (sample_db, (400, Errors [(''status'', ''Invalid value'')])) \<and>
   put_task (claims_of bob) 1 (no_fields\<lparr>status := Some ''done''\<rparr>) 50 sample_db \<noteq>
     (sample_db, (403, Message ''Access denied''))"
  by (simp add: put_task_def update_errors_def chain_errors_def optional_def notEmpty_def
      isIn_def toString_def statuses_def first_row_def permitted_def sample_defs)

section \<open>Listing\<close>

text \<open>
  Claim C2. In a consistent database the list route answers 200 with rows whose
  tasks are, counted with multiplicity, all tasks for an administrator and exactly
  the tasks owned by \<open>req.user.id\<close> for anybody else, ordered by creation time,
  the most recent first.
\<close>

theorem list_admin_all_user_own_newest_first:
  assumes "consistent d"
  shows "\<exists>rows. get_tasks req_user d = (200, Rows rows) \<and>
           mset (map fst rows) =
             mset (if claim_role req_user = ''admin'' then tasks d
                   else filter (\<lambda>t. t_user_id t = claim_id req_user) (tasks d)) \<and>
           sorted_wrt (\<lambda>a b. t_created_at b \<le> t_created_at a) (map fst rows)"
proof -
  let ?g = "\<lambda>t. u_username (hd (filter (\<lambda>u. t_user_id t = u_id u) (users d)))"
  let ?sel = "if claim_role req_user \<noteq> ''admin''
              then filter (\<lambda>r. t_user_id (fst r) = claim_id req_user) (tasks_join_users d)
              else tasks_join_users d"
  have r: "get_tasks req_user d = (200, Rows (order_by_created_at_desc ?sel))"
    by (simp add: get_tasks_def Let_def)
  have j: "tasks_join_users d = map (\<lambda>t. (t, ?g t)) (tasks d)"
    using assms by (rule consistent_join)
  have f: "filter (\<lambda>r. t_user_id (fst r) = claim_id req_user) (map (\<lambda>t. (t, ?g t)) (tasks d)) =
           map (\<lambda>t. (t, ?g t)) (filter (\<lambda>t. t_user_id t = claim_id req_user) (tasks d))"
    by (rule filter_fst_map)
  have "map fst ?sel = (if claim_role req_user = ''admin'' then tasks d
                        else filter (\<lambda>t. t_user_id t = claim_id req_user) (tasks d))"
  proof (cases "claim_role req_user = ''admin''")
    case True
    then show ?thesis by (simp add: j comp_def)
  next
    case False
    then show ?thesis by (simp add: j f comp_def)
  qed
  then have "mset (map fst (order_by_created_at_desc ?sel)) =
             mset (if claim_role req_user = ''admin'' then tasks d
                   else filter (\<lambda>t. t_user_id t = claim_id req_user) (tasks d))"
    by (simp only: mset_order_by)
  with r sorted_order_by show ?thesis by blast
qed

text \<open>Carol, the administrator, sees both tasks, the later one first; Alice sees her own.\<close>

theorem list_admin_all_user_own_newest_first_witness:
  "consistent sample_db \<and>
   get_tasks (claims_of carol) sample_db = (200, Rows [(walk_dog, ''bob''), (buy_milk, ''alice'')]) \<and>
   get_tasks (claims_of alice) sample_db = (200, Rows [(buy_milk, ''alice'')])"
proof -
  have c: "consistent sample_db" by (rule consistent_sample_db)
  have a: "get_tasks (claims_of carol) sample_db =
             (200, Rows [(walk_dog, ''bob''), (buy_milk, ''alice'')])"
    by (simp add: get_tasks_def tasks_join_users_def order_by_created_at_desc_def sample_defs)
  have b: "get_tasks (claims_of alice) sample_db = (200, Rows [(buy_milk, ''alice'')])"
    by (simp add: get_tasks_def tasks_join_users_def order_by_created_at_desc_def sample_defs)
  from list_admin_all_user_own_newest_first [OF c, of "claims_of carol"] a b c
  show ?thesis by simp
qed

section \<open>Registration of a duplicate\<close>

text \<open>
  Claim C3, as amended. A registration whose username or email is that of a stored
  user is answered 400 and leaves the database unchanged: with
  \<open>User already exists\<close> when the body passes the validation chains, with their
  errors when it does not.
\<close>

theorem register_duplicate_rejected:
  assumes "\<exists>u \<in> set (users d). Some (u_username u) = username body \<or> Some (u_email u) = email body"
  shows "post_register isEmail bcrypt_hash body salt now d =
           (d, (400, if register_errors isEmail body = [] then Message ''User already exists''
                     else Errors (register_errors isEmail body)))"
proof -
  from assms have "filter (\<lambda>u. Some (u_email u) = email body \<or> Some (u_username u) = username body)
                     (users d) \<noteq> []"
    by (auto simp: filter_empty_conv)
  then show ?thesis
    by (simp add: post_register_def Let_def)
qed

theorem register_duplicate_rejected_witness:
  "(\<exists>u \<in> set (users sample_db).
      Some (u_username u) = Some ''alice'' \<or> Some (u_email u) = Some ''al@x.com'') \<and>
   post_register sample_isEmail sample_hash
     \<lparr>username = Some ''alice'', email = Some ''al@x.com'', password = Some (Str ''secret1'')\<rparr>
     ''s4'' 60 sample_db =
     (sample_db, (400, Message ''User already exists''))"
proof -
  let ?b = "\<lparr>username = Some ''alice'', email = Some ''al@x.com'', password = Some (Str ''secret1'')\<rparr>"
  have h: "\<exists>u \<in> set (users sample_db).
             Some (u_username u) = username ?b \<or> Some (u_email u) = email ?b"
    by (simp add: sample_defs)
  have v: "register_errors sample_isEmail ?b = []"
    by (simp add: register_errors_def chain_errors_def notEmpty_def isLength_min_def toString_def text_of_def
        sample_isEmail_def)
  from register_duplicate_rejected [OF h, of sample_isEmail sample_hash "''s4''" 60] h v
  show ?thesis by simp
qed

text \<open>
  The claim as first stated fails: Alice's username and email again, with a password
  of three characters, is answered with the validation error of the password, not
  with \<open>User already exists\<close>.
\<close>

theorem register_duplicate_invalid_counterexample:
  "(\<exists>u \<in> set (users sample_db). u_username u = ''alice'' \<and> u_email u = ''alice@x.com'') \<and>
   post_register sample_isEmail sample_hash
     \<lparr>username = Some ''alice'', email = Some ''alice@x.com'', password = Some (Str ''abc'')\<rparr>
     ''s4'' 60 sample_db =
     (sample_db, (400, Errors [(''password'', ''Password must be at least 6 characters'')])) \<and>
   post_register sample_isEmail sample_hash
     \<lparr>username = Some ''alice'', email = Some ''alice@x.com'', password = Some (Str ''abc'')\<rparr>
     ''s4'' 60 sample_db \<noteq>
     (sample_db, (400, Message ''User already exists''))"
  by (simp add: post_register_def register_errors_def chain_errors_def notEmpty_def
      isLength_min_def toString_def text_of_def sample_isEmail_def sample_defs)

section \<open>Login failures\<close>

text \<open>
  Claim C4, as amended. Take a login whose email no stored user has, and a login
  whose email a stored user has, whose password is a string or missing, and whose
  password \<open>bcrypt.compare\<close> rejects. Both get the same function of the request
  alone: 401 \<open>Invalid credentials\<close> when the request passes the validation chains,
  the errors of the chains (400) otherwise. The same such request therefore gets
  the same response in both cases, and the response does not tell them apart.
\<close>

theorem login_failures_identical:
  assumes "\<forall>u \<in> set (users d). Some (u_email u) \<noteq> email body"
    and "first_row (filter (\<lambda>u. Some (u_email u) = email body') (users d')) = Some user"
    and "\<forall>s. password body' \<noteq> Some (NonStr s)"
    and "\<forall>p. password body' = Some (Str p) \<longrightarrow> \<not> bcrypt_compare p (u_password user)"
  shows "post_login isEmail bcrypt_compare body d =
           (if login_errors isEmail body = [] then (401, Message ''Invalid credentials'')
            else (400, Errors (login_errors isEmail body))) \<and>
         post_login isEmail bcrypt_compare body' d' =
           (if login_errors isEmail body' = [] then (401, Message ''Invalid credentials'')
            else (400, Errors (login_errors isEmail body'))) \<and>
         (body = body' \<longrightarrow>
            post_login isEmail bcrypt_compare body d = post_login isEmail bcrypt_compare body' d')"
proof -
  from assms(1) have "filter (\<lambda>u. Some (u_email u) = email body) (users d) = []"
    by (simp add: filter_empty_conv)
  then have absent: "post_login isEmail bcrypt_compare body d =
           (if login_errors isEmail body = [] then (401, Message ''Invalid credentials'')
            else (400, Errors (login_errors isEmail body)))"
    by (simp add: post_login_def)
  from assms(2) obtain rest where
    found: "filter (\<lambda>u. Some (u_email u) = email body') (users d') = user # rest"
    by (auto dest: first_row_Cons)
  have wrong: "post_login isEmail bcrypt_compare body' d' =
           (if login_errors isEmail body' = [] then (401, Message ''Invalid credentials'')
            else (400, Errors (login_errors isEmail body')))"
  proof (cases "login_errors isEmail body' = []")
    case False
    then show ?thesis by (simp add: post_login_def)
  next
    case True
    then have "toString (text_of (password body')) \<noteq> []"
      by (simp add: login_errors_empty_iff)
    with assms(3) obtain p where p: "password body' = Some (Str p)"
      by (cases "password body'"; cases "the (password body')")
         (auto simp: toString_def text_of_def)
    with assms(4) have "\<not> bcrypt_compare p (u_password user)" by simp
    with True found p show ?thesis by (simp add: post_login_def)
  qed
  show ?thesis
  proof (intro conjI impI)
    show "post_login isEmail bcrypt_compare body d =
           (if login_errors isEmail body = [] then (401, Message ''Invalid credentials'')
            else (400, Errors (login_errors isEmail body)))"
      by (rule absent)
    show "post_login isEmail bcrypt_compare body' d' =
           (if login_errors isEmail body' = [] then (401, Message ''Invalid credentials'')
            else (400, Errors (login_errors isEmail body')))"
      by (rule wrong)
    assume same: "body = body'"
    with absent have "post_login isEmail bcrypt_compare body' d =
           (if login_errors isEmail body' = [] then (401, Message ''Invalid credentials'')
            else (400, Errors (login_errors isEmail body')))"
      by blast
    with wrong same
    show "post_login isEmail bcrypt_compare body d = post_login isEmail bcrypt_compare body' d'"
      by simp
  qed
qed

text \<open>An unknown address, and Alice's address with a wrong guess: the same 401.\<close>

theorem login_failures_identical_witness:
  "''dave@x.com'' \<notin> u_email ` set (users sample_db) \<and>
   first_row (filter (\<lambda>u. Some (u_email u) = Some ''alice@x.com'') (users sample_db)) =
     Some alice \<and>
   \<not> sample_compare ''guess'' (u_password alice) \<and>
   post_login sample_isEmail sample_compare
     \<lparr>username = None, email = Some ''dave@x.com'', password = Some (Str ''guess'')\<rparr> sample_db =
     (401, Message ''Invalid credentials'') \<and>
   post_login sample_isEmail sample_compare
     \<lparr>username = None, email = Some ''alice@x.com'', password = Some (Str ''guess'')\<rparr> sample_db =
     (401, Message ''Invalid credentials'')"
proof -
  let ?b = "\<lparr>username = None, email = Some ''dave@x.com'', password = Some (Str ''guess'')\<rparr>"
  let ?b' = "\<lparr>username = None, email = Some ''alice@x.com'', password = Some (Str ''guess'')\<rparr>"
  have a: "\<forall>u \<in> set (users sample_db). Some (u_email u) \<noteq> email ?b"
    by (simp add: sample_defs)
  have f: "first_row (filter (\<lambda>u. Some (u_email u) = email ?b') (users sample_db)) = Some alice"
    by (simp add: first_row_def sample_defs)
  have t: "\<forall>s. password ?b' \<noteq> Some (NonStr s)"
    by simp
  have w: "\<forall>p. password ?b' = Some (Str p) \<longrightarrow> \<not> sample_compare p (u_password alice)"
    by (simp add: sample_compare_def alice_def)
  have v: "login_errors sample_isEmail ?b = [] \<and> login_errors sample_isEmail ?b' = []"
    by (simp add: login_errors_empty_iff toString_def text_of_def sample_isEmail_def)
  have n: "''dave@x.com'' \<notin> u_email ` set (users sample_db)"
    by (simp add: sample_defs)
  from login_failures_identical [where d = sample_db and body = ?b and d' = sample_db
      and body' = ?b' and user = alice and bcrypt_compare = sample_compare
      and isEmail = sample_isEmail] a f t w v n
  show ?thesis
    by simp
qed

text \<open>
  The claim as first stated fails twice. An unknown address with an empty password
  is answered 400 by the validation, not 401. And the password \<open>123456\<close> sent as a
  number passes the validation and is answered 401 for an unknown address but 500
  for Alice's, where \<open>bcrypt.compare\<close> is reached and throws: the two answers to
  the same request differ.
\<close>

theorem login_failures_differ_counterexample:
  "''dave@x.com'' \<notin> u_email ` set (users sample_db) \<and>
   first_row (filter (\<lambda>u. Some (u_email u) = Some ''alice@x.com'') (users sample_db)) =
     Some alice \<and>
   post_login sample_isEmail sample_compare
     \<lparr>username = None, email = Some ''dave@x.com'', password = Some (Str [])\<rparr> sample_db =
     (400, Errors [(''password'', ''Password is required'')]) \<and>
   post_login sample_isEmail sample_compare
     \<lparr>username = None, email = Some ''dave@x.com'', password = Some (NonStr ''123456'')\<rparr>
     sample_db =
     (401, Message ''Invalid credentials'') \<and>
   post_login sample_isEmail sample_compare
     \<lparr>username = None, email = Some ''alice@x.com'', password = Some (NonStr ''123456'')\<rparr>
     sample_db =
     (500, Message ''Server error'')"
  by (simp add: post_login_def login_errors_def chain_errors_def notEmpty_def toString_def
      text_of_def first_row_def sample_isEmail_def sample_defs)

section \<open>A task id that is not stored\<close>

text \<open>
  Claim C5, as amended. On a task id that no stored task has, delete answers 404
  \<open>Task not found\<close> for every caller, and so does every update whose body passes
  the validation chains; an update whose body fails them is answered 400 with
  their errors. The database is unchanged, and the role and the id of the caller
  play no part: the existence of the task is tested before its ownership.
\<close>

theorem missing_task_not_found:
  assumes "id' \<notin> t_id ` set (tasks d)"
  shows "delete_task req_user id' d = (d, (404, Message ''Task not found'')) \<and>
         (update_errors body = [] \<longrightarrow>
            put_task req_user id' body now d = (d, (404, Message ''Task not found''))) \<and>
         (update_errors body \<noteq> [] \<longrightarrow>
            put_task req_user id' body now d = (d, (400, Errors (update_errors body))))"
  using assms
  by (simp add: filter_id_empty delete_task_def put_task_invalid put_task_missing)

text \<open>Carol, the administrator, on task 9, which does not exist.\<close>

theorem missing_task_not_found_witness:
  "9 \<notin> t_id ` set (tasks sample_db) \<and>
   delete_task (claims_of carol) 9 sample_db = (sample_db, (404, Message ''Task not found'')) \<and>
   put_task (claims_of carol) 9 (no_fields\<lparr>title := Some ''tidy''\<rparr>) 50 sample_db =
     (sample_db, (404, Message ''Task not found''))"
proof -
  have h: "9 \<notin> t_id ` set (tasks sample_db)"
    by (simp add: sample_db_def buy_milk_def walk_dog_def)
  have v: "update_errors (no_fields\<lparr>title := Some ''tidy''\<rparr>) = []"
    by (simp add: update_errors_empty_iff no_fields_def)
  show ?thesis
    using h v
      missing_task_not_found [OF h, of "claims_of carol" "no_fields\<lparr>title := Some ''tidy''\<rparr>" 50]
    by simp
qed

text \<open>
  The claim as first stated fails: Carol's update of task 9 with a status outside
  the enumeration is answered 400 by the validation, not 404.
\<close>

theorem missing_task_invalid_body_counterexample:
  "9 \<notin> t_id ` set (tasks sample_db) \<and>
   put_task (claims_of carol) 9 (no_fields\<lparr>status := Some ''done''\<rparr>) 50 sample_db =
     (sample_db, (400, Errors [(''status'', ''Invalid value'')])) \<and>
   put_task (claims_of carol) 9 (no_fields\<lparr>status := Some ''done''\<rparr>) 50 sample_db \<noteq>
     (sample_db, (404, Message ''Task not found''))"
  by (simp add: put_task_def update_errors_def chain_errors_def optional_def notEmpty_def
      isIn_def toString_def statuses_def no_fields_def sample_db_def buy_milk_def walk_dog_def)

section \<open>Rejected updates\<close>

text \<open>
  Claim C6, as amended. An update whose status is supplied and outside the
  enumeration, or whose title is supplied and empty, is answered 400 with the errors
  of the validation chains, whatever the task and the caller. An update that
  supplies no field is answered 400 \<open>No fields to update\<close> when the task is stored
  and the caller is an administrator or its owner. In each of these cases the
  database is unchanged.
\<close>

theorem update_validation_failures:
  shows "((\<exists>s. status body = Some s \<and> s \<notin> set statuses) \<or> title body = Some [] \<longrightarrow>
            update_errors body \<noteq> [] \<and>
            put_task req_user id' body now d = (d, (400, Errors (update_errors body)))) \<and>
         (title body = None \<and> description body = None \<and> status body = None \<and>
          first_row (filter (\<lambda>t. t_id t = id') (tasks d)) = Some t \<and> permitted req_user t \<longrightarrow>
            put_task req_user id' body now d = (d, (400, Message ''No fields to update'')))"
proof (intro conjI impI)
  assume "(\<exists>s. status body = Some s \<and> s \<notin> set statuses) \<or> title body = Some []"
  then show e: "update_errors body \<noteq> []"
    by (auto simp: update_errors_empty_iff)
  then show "put_task req_user id' body now d = (d, (400, Errors (update_errors body)))"
    by (rule put_task_invalid)
next
  assume a: "title body = None \<and> description body = None \<and> status body = None \<and>
          first_row (filter (\<lambda>t. t_id t = id') (tasks d)) = Some t \<and> permitted req_user t"
  then have "update_errors body = []"
    by (simp add: update_errors_empty_iff)
  with a show "put_task req_user id' body now d = (d, (400, Message ''No fields to update''))"
    by (simp add: put_task_found collect_updates_no_fields)
qed

text \<open>Alice on her own task: an empty title, and no field at all.\<close>

theorem update_validation_failures_witness:
  "put_task (claims_of alice) 1 (no_fields\<lparr>title := Some []\<rparr>) 50 sample_db =
     (sample_db, (400, Errors [(''title'', ''Invalid value'')])) \<and>
   first_row (filter (\<lambda>t. t_id t = 1) (tasks sample_db)) = Some buy_milk \<and>
   permitted (claims_of alice) buy_milk \<and>
   put_task (claims_of alice) 1 no_fields 50 sample_db =
     (sample_db, (400, Message ''No fields to update''))"
proof -
  have f: "first_row (filter (\<lambda>t. t_id t = 1) (tasks sample_db)) = Some buy_milk"
    by (simp add: first_row_def sample_defs)
  have p: "permitted (claims_of alice) buy_milk"
    by (simp add: permitted_def sample_defs)
  have e: "update_errors (no_fields\<lparr>title := Some []\<rparr>) = [(''title'', ''Invalid value'')]"
    by (simp add: update_errors_def chain_errors_def optional_def notEmpty_def toString_def
        no_fields_def)
  have n: "title no_fields = None \<and> description no_fields = None \<and> status no_fields = None"
    by (simp add: no_fields_def)
  from update_validation_failures [where body = "no_fields\<lparr>title := Some []\<rparr>"
      and req_user = "claims_of alice" and id' = 1 and now = 50 and d = sample_db]
    update_validation_failures [where body = no_fields and req_user = "claims_of alice"
      and id' = 1 and now = 50 and d = sample_db and t = buy_milk]
    f p e n show ?thesis by simp
qed

text \<open>
  The claim as first stated fails: an update without fields is answered 404 on a
  task that is not stored, and 403 for a caller who is neither administrator nor
  owner; the test for an empty update comes after both.
\<close>

theorem update_no_fields_missing_task_counterexample:
  "title no_fields = None \<and> description no_fields = None \<and> status no_fields = None \<and>
   put_task (claims_of carol) 9 no_fields 50 sample_db =
     (sample_db, (404, Message ''Task not found'')) \<and>
   put_task (claims_of bob) 1 no_fields 50 sample_db =
     (sample_db, (403, Message ''Access denied'')) \<and>
   fst (snd (put_task (claims_of carol) 9 no_fields 50 sample_db)) \<noteq> 400 \<and>
   fst (snd (put_task (claims_of bob) 1 no_fields 50 sample_db)) \<noteq> 400"
  by (simp add: put_task_def update_errors_def chain_errors_def optional_def sample_defs)

section \<open>Creation\<close>

text \<open>
  Claim C7, as amended. A create whose title is empty or missing, or whose status is
  supplied and outside the enumeration, is answered 400 with the errors of the
  validation chains and stores nothing. Every other create answers 201 and appends
  one task: its status is the supplied one, or \<open>pending\<close> when none is supplied,
  and its \<open>user_id\<close> is \<open>req.user.id\<close>.
\<close>

theorem create_validates_defaults_and_owns:
  shows "(toString (title body) = [] \<or> (\<exists>s. status body = Some s \<and> s \<notin> set statuses) \<longrightarrow>
            create_errors body \<noteq> [] \<and>
            post_task req_user body now d = (d, (400, Errors (create_errors body)))) \<and>
         (title body = Some title' \<and> title' \<noteq> [] \<and>
          (\<forall>s. status body = Some s \<longrightarrow> s \<in> set statuses) \<longrightarrow>
            fst (snd (post_task req_user body now d)) = 201 \<and>
            fst (post_task req_user body now d) =
              d\<lparr>tasks := tasks d @
                   [\<lparr>t_id = tasks_auto_increment d, t_title = title',
                     t_description = description body,
                     t_status = (case status body of None \<Rightarrow> ''pending'' | Some s \<Rightarrow> s),
                     t_user_id = claim_id req_user, t_created_at = now, t_updated_at = now\<rparr>],
                 tasks_auto_increment := tasks_auto_increment d + 1\<rparr>)"
proof (intro conjI impI)
  assume "toString (title body) = [] \<or> (\<exists>s. status body = Some s \<and> s \<notin> set statuses)"
  then show e: "create_errors body \<noteq> []"
    by (auto simp: create_errors_empty_iff)
  then show "post_task req_user body now d = (d, (400, Errors (create_errors body)))"
    by (simp add: post_task_def)
next
  assume a: "title body = Some title' \<and> title' \<noteq> [] \<and>
          (\<forall>s. status body = Some s \<longrightarrow> s \<in> set statuses)"
  then have v: "create_errors body = []"
    by (simp add: create_errors_empty_iff toString_def)
  with a show "fst (snd (post_task req_user body now d)) = 201"
    by (simp add: post_task_def Let_def)
  from a v show "fst (post_task req_user body now d) =
              d\<lparr>tasks := tasks d @
                   [\<lparr>t_id = tasks_auto_increment d, t_title = title',
                     t_description = description body,
                     t_status = (case status body of None \<Rightarrow> ''pending'' | Some s \<Rightarrow> s),
                     t_user_id = claim_id req_user, t_created_at = now, t_updated_at = now\<rparr>],
                 tasks_auto_increment := tasks_auto_increment d + 1\<rparr>"
    by (simp add: post_task_def Let_def)
qed

text \<open>Alice without a title, and Alice with a title and no status.\<close>

theorem create_validates_defaults_and_owns_witness:
  "post_task (claims_of alice) no_fields 50 sample_db =
     (sample_db, (400, Errors [(''title'', ''Title is required'')])) \<and>
   fst (snd (post_task (claims_of alice) (no_fields\<lparr>title := Some ''buy eggs''\<rparr>) 50 sample_db)) =
     201 \<and>
   tasks (fst (post_task (claims_of alice) (no_fields\<lparr>title := Some ''buy eggs''\<rparr>) 50 sample_db)) =
     [buy_milk, walk_dog,
      \<lparr>t_id = 3, t_title = ''buy eggs'', t_description = None, t_status = ''pending'',
        t_user_id = 1, t_created_at = 50, t_updated_at = 50\<rparr>]"
proof -
  have e: "create_errors no_fields = [(''title'', ''Title is required'')]"
    by (simp add: create_errors_def chain_errors_def optional_def notEmpty_def toString_def
        no_fields_def)
  have t: "toString (title no_fields) = []"
    by (simp add: toString_def no_fields_def)
  have s: "title (no_fields\<lparr>title := Some ''buy eggs''\<rparr>) = Some ''buy eggs'' \<and>
           status (no_fields\<lparr>title := Some ''buy eggs''\<rparr>) = None \<and>
           description (no_fields\<lparr>title := Some ''buy eggs''\<rparr>) = None"
    by (simp add: no_fields_def)
  from create_validates_defaults_and_owns [where body = no_fields
      and req_user = "claims_of alice" and now = 50 and d = sample_db]
    create_validates_defaults_and_owns [where body = "no_fields\<lparr>title := Some ''buy eggs''\<rparr>"
      and title' = "''buy eggs''" and req_user = "claims_of alice" and now = 50 and d = sample_db]
    e t s show ?thesis
    by (simp add: sample_db_def claims_of_def alice_def)
qed

text \<open>
  The claim as first stated fails: a create with a title and the status \<open>done\<close>
  stores no task with that status; it is answered 400.
\<close>

theorem create_invalid_status_counterexample:
  "toString (title (no_fields\<lparr>title := Some ''buy eggs'', status := Some ''done''\<rparr>)) \<noteq> [] \<and>
   post_task (claims_of alice) (no_fields\<lparr>title := Some ''buy eggs'', status := Some ''done''\<rparr>) 50
       sample_db =
     (sample_db, (400, Errors [(''status'', ''Invalid value'')])) \<and>
   tasks (fst (post_task (claims_of alice)
       (no_fields\<lparr>title := Some ''buy eggs'', status := Some ''done''\<rparr>) 50 sample_db)) =
     tasks sample_db"
  by (simp add: post_task_def create_errors_def chain_errors_def optional_def notEmpty_def
      isIn_def toString_def statuses_def no_fields_def)

section \<open>What an update leaves alone\<close>

text \<open>
  Claim C8. After an update answered 200 the users table is as before and the tasks
  table has the same rows in the same places, where every row keeps its id, its
  \<open>user_id\<close> and its \<open>created_at\<close>, keeps each of title, description and status
  that the body does not supply, and is unchanged altogether when its id is not the
  one of the request.
\<close>

theorem update_changes_only_supplied_fields:
  assumes "put_task req_user id' body now d = (d', (200, j))"
  shows "users d' = users d \<and>
         list_all2 (\<lambda>old new.
             t_id new = t_id old \<and> t_user_id new = t_user_id old \<and>
             t_created_at new = t_created_at old \<and>
             (title body = None \<longrightarrow> t_title new = t_title old) \<and>
             (description body = None \<longrightarrow> t_description new = t_description old) \<and>
             (status body = None \<longrightarrow> t_status new = t_status old) \<and>
             (t_id old \<noteq> id' \<longrightarrow> new = old))
           (tasks d) (tasks d')"
proof -
  from assms have d': "d' = d\<lparr>tasks := update_rows (collect_updates body) id' now (tasks d)\<rparr>"
    by (rule put_task_200)
  then have "users d' = users d" by simp
  moreover have "list_all2 (\<lambda>old new.
             t_id new = t_id old \<and> t_user_id new = t_user_id old \<and>
             t_created_at new = t_created_at old \<and>
             (title body = None \<longrightarrow> t_title new = t_title old) \<and>
             (description body = None \<longrightarrow> t_description new = t_description old) \<and>
             (status body = None \<longrightarrow> t_status new = t_status old) \<and>
             (t_id old \<noteq> id' \<longrightarrow> new = old))
           (tasks d) (update_rows (collect_updates body) id' now (tasks d))"
    unfolding update_rows_def list.rel_map
    by (rule list.rel_refl_strong) (simp add: fold_assign_frame)
  ultimately show ?thesis by (simp add: d')
qed

text \<open>Alice completes her task: status and \<open>updated_at\<close> change, nothing else does.\<close>

theorem update_changes_only_supplied_fields_witness:
  "put_task (claims_of alice) 1 (no_fields\<lparr>status := Some ''completed''\<rparr>) 50 sample_db =
     (sample_db\<lparr>tasks := [buy_milk\<lparr>t_status := ''completed'', t_updated_at := 50\<rparr>, walk_dog]\<rparr>,
      (200, MessageTask ''Task updated successfully''
              (Some (buy_milk\<lparr>t_status := ''completed'', t_updated_at := 50\<rparr>)))) \<and>
   list_all2 (\<lambda>old new.
       t_id new = t_id old \<and> t_user_id new = t_user_id old \<and>
       t_created_at new = t_created_at old \<and> t_title new = t_title old \<and>
       t_description new = t_description old \<and> (t_id old \<noteq> 1 \<longrightarrow> new = old))
     [buy_milk, walk_dog] [buy_milk\<lparr>t_status := ''completed'', t_updated_at := 50\<rparr>, walk_dog]"
proof -
  let ?b = "no_fields\<lparr>status := Some ''completed''\<rparr>"
  let ?d' = "sample_db\<lparr>tasks := [buy_milk\<lparr>t_status := ''completed'', t_updated_at := 50\<rparr>,
                                   walk_dog]\<rparr>"
  have r: "put_task (claims_of alice) 1 ?b 50 sample_db =
     (?d', (200, MessageTask ''Task updated successfully''
              (Some (buy_milk\<lparr>t_status := ''completed'', t_updated_at := 50\<rparr>))))"
    by (simp add: put_task_def update_errors_def chain_errors_def optional_def notEmpty_def
      isIn_def toString_def statuses_def collect_updates_def update_rows_def
      first_row_def sample_defs)
  have b: "title ?b = None \<and> description ?b = None"
    by (simp add: no_fields_def)
  have t: "tasks sample_db = [buy_milk, walk_dog] \<and>
           tasks ?d' = [buy_milk\<lparr>t_status := ''completed'', t_updated_at := 50\<rparr>, walk_dog]"
    by (simp add: sample_db_def)
  from update_changes_only_supplied_fields [OF r] r b t show ?thesis
    by simp
qed

section \<open>A successful registration\<close>

text \<open>
  Claim C9. After a registration answered 201 the three fields were supplied, the
  users table has one more row, with the supplied username and email, the hash of
  the supplied password and the role \<open>user\<close>, and the response is the message, a
  token whose payload has the new id, the username and the role \<open>user\<close>, and the
  user's id, username, email and role. The response is the same for every hash
  function and every salt: it carries nothing of the stored hash.
\<close>

theorem register_success_public_fields:
  assumes "post_register isEmail bcrypt_hash body salt now d = (d', (201, j))"
  shows "\<exists>username' email' password'.
           username body = Some username' \<and> email body = Some email' \<and>
           password body = Some (Str password') \<and>
           users d' = users d @
             [\<lparr>u_id = users_auto_increment d, u_username = username', u_email = email',
               u_password = bcrypt_hash password' salt, u_role = ''user'', u_created_at = now\<rparr>] \<and>
           j = MessageTokenUser ''User registered successfully''
                 (Jwt \<lparr>claim_id = users_auto_increment d, claim_username = username',
                        claim_role = ''user''\<rparr> ''24h'')
                 \<lparr>pu_id = users_auto_increment d, pu_username = username', pu_email = email',
                   pu_role = ''user''\<rparr> \<and>
           (\<forall>other_hash other_salt.
              snd (post_register isEmail other_hash body other_salt now d) = (201, j))"
  using assms
  by (auto simp: post_register_def Let_def split: if_splits option.splits json_value.splits)

text \<open>Dave registers; with another hash function and salt the response is the same.\<close>

theorem register_success_public_fields_witness:
  "post_register sample_isEmail sample_hash
     \<lparr>username = Some ''dave'', email = Some ''dave@x.com'', password = Some (Str ''letmein'')\<rparr>
     ''s4'' 60 sample_db =
     (sample_db\<lparr>users := [alice, bob, carol,
                   \<lparr>u_id = 4, u_username = ''dave'', u_email = ''dave@x.com'',
                     u_password = ''s4letmein'', u_role = ''user'', u_created_at = 60\<rparr>],
                 users_auto_increment := 5\<rparr>,
      (201, MessageTokenUser ''User registered successfully''
              (Jwt \<lparr>claim_id = 4, claim_username = ''dave'', claim_role = ''user''\<rparr> ''24h'')
              \<lparr>pu_id = 4, pu_username = ''dave'', pu_email = ''dave@x.com'', pu_role = ''user''\<rparr>)) \<and>
   snd (post_register sample_isEmail (\<lambda>plaintext salt. plaintext)
     \<lparr>username = Some ''dave'', email = Some ''dave@x.com'', password = Some (Str ''letmein'')\<rparr>
     ''zz'' 60 sample_db) =
      (201, MessageTokenUser ''User registered successfully''
              (Jwt \<lparr>claim_id = 4, claim_username = ''dave'', claim_role = ''user''\<rparr> ''24h'')
              \<lparr>pu_id = 4, pu_username = ''dave'', pu_email = ''dave@x.com'', pu_role = ''user''\<rparr>)"
proof -
  let ?b = "\<lparr>username = Some ''dave'', email = Some ''dave@x.com'', password = Some (Str ''letmein'')\<rparr>"
  have r: "post_register sample_isEmail sample_hash ?b ''s4'' 60 sample_db =
     (sample_db\<lparr>users := [alice, bob, carol,
                   \<lparr>u_id = 4, u_username = ''dave'', u_email = ''dave@x.com'',
                     u_password = ''s4letmein'', u_role = ''user'', u_created_at = 60\<rparr>],
                 users_auto_increment := 5\<rparr>,
      (201, MessageTokenUser ''User registered successfully''
              (Jwt \<lparr>claim_id = 4, claim_username = ''dave'', claim_role = ''user''\<rparr> ''24h'')
              \<lparr>pu_id = 4, pu_username = ''dave'', pu_email = ''dave@x.com'', pu_role = ''user''\<rparr>))"
    by (simp add: post_register_def register_errors_def chain_errors_def notEmpty_def
        isLength_min_def toString_def text_of_def sample_isEmail_def sample_hash_def sample_defs)
  from register_success_public_fields [OF r] r show ?thesis
    by simp
qed

section \<open>Login validation\<close>

text \<open>
  Claim C10. A login whose email \<open>isEmail\<close> rejects, or whose password is empty or
  missing, is answered 400 with the errors of the validation chains, and the answer
  is the same for every database: the users table is not read.
\<close>

theorem login_validation_precedes_lookup:
  assumes "\<not> isEmail (toString (email body)) \<or> toString (text_of (password body)) = []"
  shows "login_errors isEmail body \<noteq> [] \<and>
         (\<forall>d. post_login isEmail bcrypt_compare body d = (400, Errors (login_errors isEmail body)))"
  using assms by (auto simp: post_login_def login_errors_empty_iff)

text \<open>Alice's address with an empty password: 400, not the 401 of a wrong password.\<close>

theorem login_validation_precedes_lookup_witness:
  "toString (text_of (password
     \<lparr>username = None, email = Some ''alice@x.com'', password = Some (Str [])\<rparr>)) = [] \<and>
   post_login sample_isEmail sample_compare
     \<lparr>username = None, email = Some ''alice@x.com'', password = Some (Str [])\<rparr> sample_db =
     (400, Errors [(''password'', ''Password is required'')])"
  using login_validation_precedes_lookup
    [of sample_isEmail "\<lparr>username = None, email = Some ''alice@x.com'', password = Some (Str [])\<rparr>"
        sample_compare]
  by (simp add: toString_def text_of_def login_errors_def chain_errors_def notEmpty_def
      sample_isEmail_def)

end
